theory Spec2Isabelle
  imports Complex_Main "HOL-Library.Word"
begin

unbundle bit_operations_syntax

section \<open>The ledger contract (blockchain/contracts/ScamLedger.sol)\<close>

text \<open>
  The contract keeps one private dynamic array \<open>scams\<close> of \<open>ScamEntry\<close> structs.
  Values of type \<open>uint256\<close> (timestamps, indices, the array length) are modelled as
  naturals: the only arithmetic on them is \<open>scams.length - 1\<close> right after a push, which
  cannot underflow, and an array of \<open>2 ^ 256\<close> entries cannot exist.
  \<open>block.timestamp\<close> is an input of the transaction and is passed explicitly.
\<close>

record ScamEntry =
  hash :: string
  category :: string
  timestamp :: nat

type_synonym ledger = "ScamEntry list"

text \<open>The event \<open>ScamAdded(index, hash, category, timestamp)\<close>.\<close>

datatype event = ScamAdded (ev_index: nat) (ev_hash: string) (ev_category: string) (ev_timestamp: nat)

datatype revert = Revert string

text \<open>The storage of a freshly deployed contract: an empty array.\<close>

definition deployed :: ledger where
  "deployed = []"

text \<open>
  \<open>addScamHash\<close> builds the entry in memory, pushes it and emits the event with the
  index \<open>scams.length - 1\<close> read after the push. It has no \<open>require\<close>.
\<close>

definition addScamHash :: "string \<Rightarrow> string \<Rightarrow> nat \<Rightarrow> ledger \<Rightarrow> ledger \<times> event" where
  "addScamHash h c now scams =
     (let entry = \<lparr>hash = h, category = c, timestamp = now\<rparr>;
          scams' = scams @ [entry]
      in (scams', ScamAdded (length scams' - 1) h c now))"

definition getTotalScams :: "ledger \<Rightarrow> nat" where
  "getTotalScams scams = length scams"

definition getScamByIndex :: "ledger \<Rightarrow> nat \<Rightarrow> revert + (string \<times> string \<times> nat)" where
  "getScamByIndex scams i =
     (if i < length scams
      then (let entry = scams ! i in Inr (hash entry, category entry, timestamp entry))
      else Inl (Revert ''Index out of bounds''))"

text \<open>
  The external interface as a whole: a call, run at a block timestamp on a storage,
  gives the new storage and what the caller observes. The two getters are declared
  \<open>view\<close>: they hand the storage back as it was.
\<close>

datatype call = AddScamHash string string | GetTotalScams | GetScamByIndex nat

datatype outcome =
    Emitted event
  | Total nat
  | Entry "revert + (string \<times> string \<times> nat)"

fun exec :: "nat \<Rightarrow> call \<Rightarrow> ledger \<Rightarrow> ledger \<times> outcome" where
  "exec now (AddScamHash h c) scams =
     (let (scams', e) = addScamHash h c now scams in (scams', Emitted e))"
| "exec now GetTotalScams scams = (scams, Total (getTotalScams scams))"
| "exec now (GetScamByIndex i) scams = (scams, Entry (getScamByIndex scams i))"

text \<open>
  A sequence of appends, oldest first, each with its own block timestamp; the events
  come out in the order in which they were emitted.
\<close>

fun appendAll :: "(string \<times> string \<times> nat) list \<Rightarrow> ledger \<Rightarrow> ledger \<times> event list" where
  "appendAll [] scams = (scams, [])"
| "appendAll ((h, c, now) # rest) scams =
     (let (scams', e) = addScamHash h c now scams;
          (scams'', es) = appendAll rest scams'
      in (scams'', e # es))"

section \<open>Text and fingerprints (frontend/app/page.tsx)\<close>

subsection \<open>Strings\<close>

text \<open>
  A text is a \<open>string\<close>, a list of 8-bit characters, each read as the code point of
  that number (ASCII and the Latin-1 supplement). On these code points the three string
  methods that \<open>normalizeForHash\<close> calls work character by character, as below. Code
  points beyond \<open>U+00FF\<close> are outside the model.

  \<open>trim()\<close> and the class \<open>\s\<close> share one set of characters, white space and line
  terminators: tab, line feed, vertical tab, form feed, carriage return, space and the
  no-break space.
\<close>

definition isWhiteSpace :: "char \<Rightarrow> bool" where
  "isWhiteSpace c = (of_char c \<in> {9, 10, 11, 12, 13, 32, 160 :: nat})"

text \<open>
  \<open>toLowerCase()\<close> maps \<open>A\<close>-\<open>Z\<close> and the capital letters of the Latin-1 supplement
  (\<open>U+00C0\<close>-\<open>U+00DE\<close> without the multiplication sign \<open>U+00D7\<close>) to the letter 32
  code points higher and leaves every other character alone.
\<close>

definition toLowerChar :: "char \<Rightarrow> char" where
  "toLowerChar c =
     (let n = of_char c :: nat
      in if (65 \<le> n \<and> n \<le> 90) \<or> (192 \<le> n \<and> n \<le> 214) \<or> (216 \<le> n \<and> n \<le> 222)
         then char_of (n + 32) else c)"

definition toLowerCase :: "string \<Rightarrow> string" where
  "toLowerCase s = map toLowerChar s"

definition trim :: "string \<Rightarrow> string" where
  "trim s = rev (dropWhile isWhiteSpace (rev (dropWhile isWhiteSpace s)))"



subsection \<open>SHA-256\<close>

























text \<open>
  What a function in the browser could read besides its arguments: the clock behind
  \<open>Date.now()\<close> and the generator behind \<open>Math.random()\<close>. The store handler computes
  \<open>sha256(normalizeForHash(rawInput))\<close>; neither function reads or advances either of
  the two, so the pipeline hands the ambient state back as it got it.
\<close>

record ambient =
  wallClock :: nat
  randomState :: nat


subsection \<open>Texts that differ only in case or white space\<close>






section \<open>Analysis results and the store handler (frontend/app/page.tsx)\<close>

text \<open>
  \<open>AnalysisResult\<close> with the fields the handlers below read or write; JavaScript
  numbers are modelled as reals.
\<close>

record AnalysisResult =
  probability :: real
  category :: string
  red_flags :: "string list"
  advice :: string

definition startsWith :: "string \<Rightarrow> string \<Rightarrow> bool" where
  "startsWith s p = (take (length p) s = p)"

fun includesStr :: "string \<Rightarrow> string \<Rightarrow> bool" where
  "includesStr [] p = (p = [])"
| "includesStr (c # cs) p = (startsWith (c # cs) p \<or> includesStr cs p)"

text \<open>
  The WhatsApp forward detector of \<open>handleAnalyze\<close>, run on the result that came back
  from the backend before it is published:
  \<^verbatim>\<open>
  if (message) {
    const lowerMsg = message.trim().toLowerCase();
    if (lowerMsg.startsWith("forwarded") || lowerMsg.includes("forwarded many times")) {
      if (!finalResult.red_flags.includes("Mass-forwarded message pattern detected")) {
        finalResult.red_flags.unshift("Mass-forwarded WhatsApp pattern detected");
        finalResult.probability = Math.min(finalResult.probability + 0.15, 0.99);
      }
    }
  }
  \<close>
\<close>

definition whatsAppForwardDetector :: "string \<Rightarrow> AnalysisResult \<Rightarrow> AnalysisResult" where
  "whatsAppForwardDetector message finalResult =
     (if message \<noteq> [] then
        (let lowerMsg = toLowerCase (trim message)
         in if startsWith lowerMsg ''forwarded'' \<or> includesStr lowerMsg ''forwarded many times''
            then (if ''Mass-forwarded message pattern detected'' \<notin> set (red_flags finalResult)
                  then finalResult
                         \<lparr>red_flags := ''Mass-forwarded WhatsApp pattern detected'' # red_flags finalResult,
                          probability := min (probability finalResult + 0.15) 0.99\<rparr>
                  else finalResult)
            else finalResult)
      else finalResult)"

text \<open>
  \<open>Math.round\<close> rounds to the nearest integer, a half towards plus infinity.
  \<open>ResultCard\<close> takes the verdict from the rounded percentage; the \<open>LocalHistory\<close>
  list takes it from the stored probability.
\<close>

definition Math_round :: "real \<Rightarrow> int" where
  "Math_round x = \<lfloor>x + 1 / 2\<rfloor>"

definition ResultCard_isScam :: "AnalysisResult \<Rightarrow> bool" where
  "ResultCard_isScam result = (let pct = Math_round (probability result * 100) in pct \<ge> 50)"

definition LocalHistory_isScam :: "real \<Rightarrow> bool" where
  "LocalHistory_isScam item_probability = (item_probability \<ge> 0.5)"

text \<open>
  The state of the page that \<open>handleStoreOnBlockchain\<close> reads: the text area, the
  name of the chosen image file if there is one, and the current result if there is
  one. The backend is outside this repository's frontend: it is a parameter that maps a
  request to what the handler sees of the reply.
\<close>

record home =
  message :: string
  imageFile :: "string option"
  result :: "AnalysisResult option"







section \<open>Properties of the ledger\<close>

lemma addScamHash_storage:
  "fst (addScamHash h c now scams) = scams @ [\<lparr>hash = h, category = c, timestamp = now\<rparr>]"
  by (simp add: addScamHash_def Let_def)

lemma addScamHash_event:
  "snd (addScamHash h c now scams) = ScamAdded (length scams) h c now"
  by (simp add: addScamHash_def Let_def)

lemma appendAll_Cons_fst:
  "fst (appendAll ((h, c, now) # rest) scams) =
     fst (appendAll rest (scams @ [\<lparr>hash = h, category = c, timestamp = now\<rparr>]))"
  by (simp add: addScamHash_def Let_def split: prod.split)

lemma appendAll_Cons_snd:
  "snd (appendAll ((h, c, now) # rest) scams) =
     ScamAdded (length scams) h c now
       # snd (appendAll rest (scams @ [\<lparr>hash = h, category = c, timestamp = now\<rparr>]))"
  by (simp add: addScamHash_def Let_def split: prod.split)

lemma appendAll_indices:
  "map ev_index (snd (appendAll reqs scams)) = [length scams ..< length scams + length reqs]"
proof (induction reqs arbitrary: scams)
  case Nil
  show ?case by simp
next
  case (Cons r rest)
  obtain h c now where r: "r = (h, c, now)" by (cases r) auto
  have step: "map ev_index (snd (appendAll rest (scams @ [\<lparr>hash = h, category = c, timestamp = now\<rparr>])))
      = [Suc (length scams) ..< Suc (length scams) + length rest]"
    using Cons.IH [of "scams @ [\<lparr>hash = h, category = c, timestamp = now\<rparr>]"] by simp
  have "map ev_index (snd (appendAll (r # rest) scams))
      = length scams # [Suc (length scams) ..< Suc (length scams) + length rest]"
    using step by (simp only: r appendAll_Cons_snd list.map event.sel)
  also have "\<dots> = [length scams ..< length scams + length (r # rest)]"
    using upt_conv_Cons [of "length scams" "length scams + length (r # rest)"] by simp
  finally show ?case .
qed

lemma appendAll_storage:
  "fst (appendAll reqs scams) =
     scams @ map (\<lambda>(h, c, now). \<lparr>hash = h, category = c, timestamp = now\<rparr>) reqs"
proof (induction reqs arbitrary: scams)
  case Nil
  show ?case by simp
next
  case (Cons r rest)
  obtain h c now where r: "r = (h, c, now)" by (cases r) auto
  show ?case
    unfolding r appendAll_Cons_fst
    using Cons.IH [of "scams @ [\<lparr>hash = h, category = c, timestamp = now\<rparr>]"] by simp
qed

lemma appendAll_length:
  "length (fst (appendAll reqs scams)) = length scams + length reqs"
  by (simp add: appendAll_storage)

subsection \<open>Sequence numbers\<close>

text \<open>
  Claim C3, as stated: after \<open>N\<close> appends on an empty ledger the sequence numbers given
  to the entries are exactly \<open>1, \<dots>, N\<close>. The number the contract gives to an entry is
  the index it emits, \<open>scams.length - 1\<close> after the push, and the first one is 0: after a
  single append the set of indices is \<open>{0}\<close>, not \<open>{1}\<close>.
\<close>

theorem first_index_is_zero:
  "set (map ev_index (snd (appendAll [(''9f86d081'', ''phishing'', 1700000000)] deployed))) \<noteq> {1..1}"
  by (simp add: deployed_def addScamHash_def Let_def)

text \<open>
  Claim C3, amended: after \<open>N\<close> appends on an empty ledger the indices given to the
  entries, in the order of the appends, are \<open>0, 1, \<dots>, N - 1\<close>: their set is exactly
  \<open>{0, \<dots>, N - 1}\<close>, none is repeated, each is strictly greater than every earlier one,
  and \<open>getTotalScams\<close> then returns \<open>N\<close>.
\<close>

theorem append_indices_zero_based:
  "map ev_index (snd (appendAll reqs deployed)) = [0 ..< length reqs]
   \<and> set (map ev_index (snd (appendAll reqs deployed))) = {0 ..< length reqs}
   \<and> distinct (map ev_index (snd (appendAll reqs deployed)))
   \<and> sorted_wrt (<) (map ev_index (snd (appendAll reqs deployed)))
   \<and> getTotalScams (fst (appendAll reqs deployed)) = length reqs"
proof -
  have ix: "map ev_index (snd (appendAll reqs deployed)) = [0 ..< length reqs]"
    using appendAll_indices [of reqs deployed] by (simp add: deployed_def)
  have total: "getTotalScams (fst (appendAll reqs deployed)) = length reqs"
    by (simp add: getTotalScams_def appendAll_length deployed_def)
  show ?thesis
    unfolding ix using total by simp
qed

subsection \<open>Duplicate fingerprints\<close>

text \<open>
  Claim C7: appending the same fingerprint twice succeeds both times and creates two
  entries. Neither call reverts (each emits its event), the two events and the two stored
  entries carry the same fingerprint, the second index is the first plus one, and
  \<open>getTotalScams\<close> grows by one with each append.
\<close>

theorem same_fingerprint_appended_twice:
  "fst (exec t1 (AddScamHash h c1) s) = s @ [\<lparr>hash = h, category = c1, timestamp = t1\<rparr>]
   \<and> snd (exec t1 (AddScamHash h c1) s) = Emitted (ScamAdded (length s) h c1 t1)
   \<and> fst (exec t2 (AddScamHash h c2) (fst (exec t1 (AddScamHash h c1) s)))
        = s @ [\<lparr>hash = h, category = c1, timestamp = t1\<rparr>, \<lparr>hash = h, category = c2, timestamp = t2\<rparr>]
   \<and> snd (exec t2 (AddScamHash h c2) (fst (exec t1 (AddScamHash h c1) s)))
        = Emitted (ScamAdded (length s + 1) h c2 t2)
   \<and> getTotalScams (fst (exec t1 (AddScamHash h c1) s)) = getTotalScams s + 1
   \<and> getTotalScams (fst (exec t2 (AddScamHash h c2) (fst (exec t1 (AddScamHash h c1) s))))
        = getTotalScams (fst (exec t1 (AddScamHash h c1) s)) + 1
   \<and> getScamByIndex (fst (exec t2 (AddScamHash h c2) (fst (exec t1 (AddScamHash h c1) s)))) (length s)
        = Inr (h, c1, t1)
   \<and> getScamByIndex (fst (exec t2 (AddScamHash h c2) (fst (exec t1 (AddScamHash h c1) s)))) (length s + 1)
        = Inr (h, c2, t2)"
  by (simp add: addScamHash_def getTotalScams_def getScamByIndex_def Let_def nth_append)

subsection \<open>Appending leaves the stored entries alone\<close>

text \<open>
  Claim C9: \<open>addScamHash\<close> never modifies existing entries. For every ledger and every
  index \<open>i\<close> below the count before the call, \<open>getScamByIndex i\<close> returns the same
  (hash, category, timestamp) after the call as before, and the entries that were
  there keep their positions: the old array is the prefix of the new one.
\<close>

theorem addScamHash_keeps_entries:
  assumes "i < getTotalScams scams"
  shows "getScamByIndex (fst (addScamHash h c now scams)) i = getScamByIndex scams i
         \<and> take (getTotalScams scams) (fst (addScamHash h c now scams)) = scams"
  using assms
  by (simp add: addScamHash_def getTotalScams_def getScamByIndex_def Let_def nth_append)

theorem addScamHash_keeps_entries_witness:
  "(0::nat) < getTotalScams [\<lparr>hash = ''ab12'', category = ''phishing'', timestamp = 100\<rparr>]
   \<and> getScamByIndex (fst (addScamHash ''cd34'' ''lottery scam'' 200
          [\<lparr>hash = ''ab12'', category = ''phishing'', timestamp = 100\<rparr>])) 0
       = Inr (''ab12'', ''phishing'', 100)
   \<and> take 1 (fst (addScamHash ''cd34'' ''lottery scam'' 200
          [\<lparr>hash = ''ab12'', category = ''phishing'', timestamp = 100\<rparr>]))
       = [\<lparr>hash = ''ab12'', category = ''phishing'', timestamp = 100\<rparr>]"
proof -
  have h: "(0::nat) < getTotalScams [\<lparr>hash = ''ab12'', category = ''phishing'', timestamp = 100\<rparr>]"
    by (simp add: getTotalScams_def)
  show ?thesis
    using h addScamHash_keeps_entries [OF h, of "''cd34''" "''lottery scam''" 200]
    by (simp add: getTotalScams_def getScamByIndex_def)
qed

subsection \<open>Reading the ledger\<close>

text \<open>
  Claim C10: \<open>getScamByIndex index\<close> succeeds, with the stored (hash, category,
  timestamp) of the entry at that position, if and only if \<open>index\<close> is strictly less than
  \<open>getTotalScams()\<close>; for every index at or beyond the count it reverts with
  "Index out of bounds"; and neither getter changes the storage.
\<close>

theorem getScamByIndex_in_bounds_iff:
  "((\<exists>r. getScamByIndex scams i = Inr r) \<longleftrightarrow> i < getTotalScams scams)
   \<and> (i < getTotalScams scams \<longrightarrow>
        getScamByIndex scams i = Inr (hash (scams ! i), ScamEntry.category (scams ! i), timestamp (scams ! i)))
   \<and> (getTotalScams scams \<le> i \<longrightarrow> getScamByIndex scams i = Inl (Revert ''Index out of bounds''))
   \<and> fst (exec now (GetScamByIndex i) scams) = scams
   \<and> fst (exec now GetTotalScams scams) = scams"
  by (simp add: getScamByIndex_def getTotalScams_def Let_def)

theorem getScamByIndex_in_bounds_iff_witness:
  "(0::nat) < getTotalScams [\<lparr>hash = ''ab12'', category = ''phishing'', timestamp = 100\<rparr>]
   \<and> getScamByIndex [\<lparr>hash = ''ab12'', category = ''phishing'', timestamp = 100\<rparr>] 0
       = Inr (''ab12'', ''phishing'', 100)
   \<and> getTotalScams [\<lparr>hash = ''ab12'', category = ''phishing'', timestamp = 100\<rparr>] \<le> (1::nat)
   \<and> getScamByIndex [\<lparr>hash = ''ab12'', category = ''phishing'', timestamp = 100\<rparr>] 1
       = Inl (Revert ''Index out of bounds'')"
proof -
  let ?s = "[\<lparr>hash = ''ab12'', category = ''phishing'', timestamp = 100\<rparr>]"
  have lo: "(0::nat) < getTotalScams ?s" and hi: "getTotalScams ?s \<le> (1::nat)"
    by (simp_all add: getTotalScams_def)
  from getScamByIndex_in_bounds_iff [of ?s 0 0] lo
  have a: "getScamByIndex ?s 0 = Inr (''ab12'', ''phishing'', 100)" by simp
  from getScamByIndex_in_bounds_iff [of ?s 1 0] hi
  have b: "getScamByIndex ?s 1 = Inl (Revert ''Index out of bounds'')" by blast
  from lo a hi b show ?thesis by blast
qed

section \<open>Properties of normalization and hashing\<close>

lemma isWhiteSpace_toLowerChar [simp]: "isWhiteSpace (toLowerChar c) = isWhiteSpace c"
  by (auto simp: isWhiteSpace_def toLowerChar_def Let_def)

subsection \<open>Lower case and white space do not interfere\<close>





subsection \<open>Trimming keeps the words\<close>






subsection \<open>The normal form is the lower-case words joined by single spaces\<close>








subsection \<open>Fingerprints\<close>




section \<open>Properties of the analysis handlers\<close>

subsection \<open>The forward detector\<close>

lemma whatsAppForwardDetector_cases:
  "whatsAppForwardDetector m r = r \<or>
   whatsAppForwardDetector m r =
     r\<lparr>red_flags := ''Mass-forwarded WhatsApp pattern detected'' # red_flags r,
       probability := min (probability r + 0.15) 0.99\<rparr>"
  by (simp add: whatsAppForwardDetector_def Let_def)

text \<open>
  Claim C5: for every analysis result with a probability in \<open>[0, 1]\<close>, the
  probability published after the WhatsApp-forward adjustment is in \<open>[0, 1]\<close> again:
  \<open>min (probability + 0.15) 0.99\<close> never exceeds 1 and never falls below 0.
\<close>

theorem boost_stays_in_unit_interval:
  assumes "0 \<le> probability r" and "probability r \<le> 1"
  shows "0 \<le> probability (whatsAppForwardDetector m r)
         \<and> probability (whatsAppForwardDetector m r) \<le> 1"
  using assms whatsAppForwardDetector_cases [of m r] by auto

theorem boost_stays_in_unit_interval_witness:
  "(0::real) \<le> probability \<lparr>probability = 1, category = ''phishing'', red_flags = [], advice = ''Do not click''\<rparr>
   \<and> probability \<lparr>probability = 1, category = ''phishing'', red_flags = [], advice = ''Do not click''\<rparr> \<le> 1
   \<and> probability (whatsAppForwardDetector ''Forwarded many times: claim your prize''
         \<lparr>probability = 1, category = ''phishing'', red_flags = [], advice = ''Do not click''\<rparr>) = 0.99"
proof -
  let ?r = "\<lparr>probability = 1, category = ''phishing'', red_flags = [], advice = ''Do not click''\<rparr>"
  have lo: "0 \<le> probability ?r" and hi: "probability ?r \<le> 1" by simp_all
  have lm: "toLowerCase (trim ''Forwarded many times: claim your prize'') = ''forwarded many times: claim your prize''"
    by code_simp
  have v: "probability (whatsAppForwardDetector ''Forwarded many times: claim your prize'' ?r) = 0.99"
    by (simp add: whatsAppForwardDetector_def Let_def lm startsWith_def)
  from boost_stays_in_unit_interval [OF lo hi, of "''Forwarded many times: claim your prize''"] lo hi v
  show ?thesis by blast
qed


subsection \<open>The verdict\<close>

text \<open>
  Claim C6 says the displayed verdict is "scam" exactly when the probability is at
  least 0.5. \<open>LocalHistory\<close> does that; \<open>ResultCard\<close> compares the rounded percentage
  with 50, which holds from 0.495 on. At probability 0.497 the card shows "scam" and
  the history list shows "safe".
\<close>

theorem verdicts_disagree_below_half:
  "ResultCard_isScam \<lparr>probability = 0.497, category = ''phishing'', red_flags = [], advice = ''''\<rparr>
   \<and> \<not> LocalHistory_isScam 0.497
   \<and> (0.497 :: real) < 0.5"
  by (simp add: ResultCard_isScam_def LocalHistory_isScam_def Math_round_def)

lemma ResultCard_isScam_iff: "ResultCard_isScam r \<longleftrightarrow> probability r \<ge> 0.495"
proof -
  have "(50 :: int) \<le> \<lfloor>probability r * 100 + 1 / 2\<rfloor> \<longleftrightarrow> 50 \<le> probability r * 100 + 1 / 2"
    using le_floor_iff [of 50 "probability r * 100 + 1 / 2"] by simp
  also have "\<dots> \<longleftrightarrow> probability r \<ge> 0.495" by auto
  finally show ?thesis
    by (simp add: ResultCard_isScam_def Math_round_def)
qed

subsection \<open>The store handler\<close>






end
